theory Spec2Isabelle
  imports Main "HOL-Library.Word"
begin

section \<open>Values, exceptions and upstream iterators\<close>

text \<open>
  The client is Python. Values that cross the stream classes untyped (the entries of the
  raw dictionaries, the fields of the dataclasses, which Python does not check) are
  \<open>pyval\<close>. A float is kept as its IEEE-754 bit pattern and never interpreted.
\<close>

type_synonym byte = "8 word"
type_synonym float64 = "64 word"

datatype pyval = PNone | PInt int | PStr string | PBytes "byte list"

text \<open>
  The reason carried by a \<open>ValueError\<close>: the two messages of \<open>Frame.to_numpy\<close>, the
  three that numpy's \<open>frombuffer\<close> and \<open>reshape\<close> raise, and the one of \<open>float\<close>.
\<close>

datatype value_error =
    NoPixelData
  | UnknownPixelFormat pyval
  | BufferSizeNotMultiple
  | OneUnknownDimension
  | CannotReshape
  | CouldNotConvertToFloat pyval

datatype exn =
    StopAsyncIteration
  | KeyError string
  | ValueError value_error
  | TypeError
  | OverflowError
  | ImportError string
  | RuntimeError string
  | RpcError string
  | OtherError string

text \<open>
  An asynchronous iterator handed out by the client (\<open>rust_daq.core\<close>, not part of the
  sources) is the list of what its successive \<open>__anext__\<close> calls will do: produce an
  item or raise. Once the list is used up it raises \<open>StopAsyncIteration\<close>.
\<close>

datatype 'a outcome = Item 'a | Raise exn

type_synonym 'a aiter = "'a outcome list"

fun aiter_next :: "'a aiter \<Rightarrow> (exn + 'a) \<times> 'a aiter" where
  "aiter_next [] = (Inl StopAsyncIteration, [])"
| "aiter_next (Item x # rest) = (Inr x, rest)"
| "aiter_next (Raise e # rest) = (Inl e, rest)"

text \<open>A raw event is a dictionary; \<open>raw[k]\<close> raises \<open>KeyError\<close> on a missing key.\<close>

type_synonym raw = "string \<rightharpoonup> pyval"

definition getitem :: "raw \<Rightarrow> string \<Rightarrow> exn + pyval" where
  "getitem d k = (case d k of None \<Rightarrow> Inl (KeyError k) | Some v \<Rightarrow> Inr v)"

text \<open>Evaluation in sequence: the first exception raised ends it.\<close>

definition then_do :: "exn + 'a \<Rightarrow> ('a \<Rightarrow> exn + 'b) \<Rightarrow> exn + 'b" where
  "then_do m f = (case m of Inl e \<Rightarrow> Inl e | Inr v \<Rightarrow> f v)"

text \<open>
  A callback is user code: it may change the world outside the stream (\<open>'w\<close>) and it may
  raise.
\<close>

type_synonym ('a, 'w) callback = "'a \<Rightarrow> 'w \<Rightarrow> exn option \<times> 'w"

section \<open>Frame and its pixel decoder\<close>

record Frame =
  device_id :: pyval
  frame_number :: pyval
  width :: pyval
  height :: pyval
  timestamp_ns :: pyval
  pixel_data :: pyval
  pixel_format :: pyval











section \<open>FrameStream\<close>

definition make_Frame :: "raw \<Rightarrow> exn + Frame" where
  "make_Frame r =
     then_do (getitem r ''device_id'') (\<lambda>v1.
     then_do (getitem r ''frame_number'') (\<lambda>v2.
     then_do (getitem r ''width'') (\<lambda>v3.
     then_do (getitem r ''height'') (\<lambda>v4.
     then_do (getitem r ''timestamp_ns'') (\<lambda>v5.
     then_do (getitem r ''pixel_data'') (\<lambda>v6.
     then_do (getitem r ''pixel_format'') (\<lambda>v7.
       Inr \<lparr>device_id = v1, frame_number = v2, width = v3, height = v4,
            timestamp_ns = v5, pixel_data = v6, pixel_format = v7\<rparr>)))))))"

text \<open>
  The object's fields. \<open>fs_client\<close> is the one method of the client the class calls,
  \<open>client.stream_frames(device_id, include_pixel_data=...)\<close>.
\<close>

record 'w FrameStream =
  fs_client :: "string \<Rightarrow> bool \<Rightarrow> raw aiter"
  fs_device_id :: string
  fs_include_pixel_data :: bool
  fs_max_frames :: "int option"
  fs_on_frame :: "(Frame, 'w) callback option"
  fs_frame_count :: int
  fs_active :: bool
  fs_iterator :: "raw aiter option"

definition FrameStream_init ::
  "(string \<Rightarrow> bool \<Rightarrow> raw aiter) \<Rightarrow> string \<Rightarrow> bool \<Rightarrow> int option \<Rightarrow>
   (Frame, 'w) callback option \<Rightarrow> 'w FrameStream" where
  "FrameStream_init client dev include_px max_fr cb =
     \<lparr>fs_client = client, fs_device_id = dev, fs_include_pixel_data = include_px,
      fs_max_frames = max_fr, fs_on_frame = cb, fs_frame_count = 0, fs_active = False,
      fs_iterator = None\<rparr>"

definition FrameStream_aenter :: "'w FrameStream \<Rightarrow> 'w FrameStream" where
  "FrameStream_aenter self =
     self\<lparr>fs_active := True, fs_frame_count := 0,
          fs_iterator := Some (fs_client self (fs_device_id self) (fs_include_pixel_data self))\<rparr>"

text \<open>\<open>__aexit__\<close> returns \<open>False\<close>: an exception of the body is not swallowed.\<close>

definition FrameStream_aexit :: "'w FrameStream \<Rightarrow> bool \<times> 'w FrameStream" where
  "FrameStream_aexit self = (False, self\<lparr>fs_active := False, fs_iterator := None\<rparr>)"

text \<open>
  \<open>self._max_frames and self._frame_count >= self._max_frames\<close>: Python's \<open>and\<close> tests
  the truth of \<open>max_frames\<close> first, and both \<open>None\<close> and \<open>0\<close> are false.
\<close>

definition cap_reached :: "'w FrameStream \<Rightarrow> bool" where
  "cap_reached self =
     (case fs_max_frames self of
        None \<Rightarrow> False
      | Some m \<Rightarrow> m \<noteq> 0 \<and> fs_frame_count self \<ge> m)"

definition FrameStream_anext :: "'w FrameStream \<Rightarrow> 'w \<Rightarrow> (exn + Frame) \<times> 'w FrameStream \<times> 'w" where
  "FrameStream_anext self w =
     (if \<not> fs_active self \<or> fs_iterator self = None then (Inl StopAsyncIteration, self, w)
      else if cap_reached self then (Inl StopAsyncIteration, self, w)
      else
        (case fs_iterator self of
           None \<Rightarrow> (Inl StopAsyncIteration, self, w)
         | Some it \<Rightarrow>
             (case aiter_next it of
                (Inl e, it') \<Rightarrow>
                  (if e = StopAsyncIteration
                   then (Inl e, self\<lparr>fs_iterator := Some it', fs_active := False\<rparr>, w)
                   else (Inl e, self\<lparr>fs_iterator := Some it'\<rparr>, w))
              | (Inr r, it') \<Rightarrow>
                  (case make_Frame r of
                     Inl e \<Rightarrow> (Inl e, self\<lparr>fs_iterator := Some it'\<rparr>, w)
                   | Inr frame \<Rightarrow>
                       (let self' = self\<lparr>fs_iterator := Some it',
                                         fs_frame_count := fs_frame_count self + 1\<rparr>
                        in case fs_on_frame self of
                             None \<Rightarrow> (Inr frame, self', w)
                           | Some cb \<Rightarrow>
                               (case cb frame w of
                                  (Some e, w') \<Rightarrow> (Inl e, self', w')
                                | (None, w') \<Rightarrow> (Inr frame, self', w')))))))"

text \<open>
  \<open>async for frame in stream\<close>, with a body that only keeps the frame: the frames
  handed over, the exception that ended the loop (\<open>StopAsyncIteration\<close> is the normal
  end), and the stream and the world afterwards.
\<close>

definition remaining :: "'a aiter option \<Rightarrow> nat" where
  "remaining it = (case it of None \<Rightarrow> 0 | Some xs \<Rightarrow> length xs)"

function FrameStream_iterate ::
  "'w FrameStream \<Rightarrow> 'w \<Rightarrow> Frame list \<times> exn \<times> 'w FrameStream \<times> 'w" where
  "FrameStream_iterate self w =
     (case FrameStream_anext self w of
        (Inl e, self', w') \<Rightarrow> ([], e, self', w')
      | (Inr frame, self', w') \<Rightarrow>
          (case FrameStream_iterate self' w' of
             (frames, e, self'', w'') \<Rightarrow> (frame # frames, e, self'', w'')))"
  by pat_completeness auto
termination
proof (relation "measure (\<lambda>(self, w). remaining (fs_iterator self))")
  show "wf (measure (\<lambda>(self :: 'w FrameStream, w :: 'w). remaining (fs_iterator self)))"
    by simp
next
  fix self :: "'w FrameStream" and w :: 'w and x y frame self' w'
  assume "(x, y) = FrameStream_anext self w" "x = Inr frame" "(self', w') = y"
  then have a: "FrameStream_anext self w = (Inr frame, self', w')"
    by simp
  obtain it where it: "fs_iterator self = Some it"
    using a by (cases "fs_iterator self") (auto simp: FrameStream_anext_def)
  obtain r rest where r: "it = Item r # rest"
    using a it by (cases it rule: aiter_next.cases)
      (auto simp: FrameStream_anext_def split: if_splits)
  have "fs_iterator self' = Some rest"
    using a it r
    by (auto simp: FrameStream_anext_def Let_def split: if_splits sum.splits option.splits prod.splits)
  then show "((self', w'), (self, w)) \<in> measure (\<lambda>(self, w). remaining (fs_iterator self))"
    using it r by (simp add: remaining_def)
qed

text \<open>
  \<open>async with FrameStream(...) as stream: async for frame in stream: ...\<close>: enter,
  iterate, exit.
\<close>

definition FrameStream_run ::
  "(string \<Rightarrow> bool \<Rightarrow> raw aiter) \<Rightarrow> string \<Rightarrow> bool \<Rightarrow> int option \<Rightarrow>
   (Frame, 'w) callback option \<Rightarrow> 'w \<Rightarrow> Frame list \<times> exn \<times> 'w FrameStream \<times> 'w" where
  "FrameStream_run client dev include_px max_fr cb w =
     (case FrameStream_iterate (FrameStream_aenter (FrameStream_init client dev include_px max_fr cb)) w of
        (frames, e, self, w') \<Rightarrow> (frames, e, snd (FrameStream_aexit self), w'))"

section \<open>ParameterChange and ParameterSubscription\<close>

record ParameterChange =
  pc_device_id :: pyval
  pc_name :: pyval
  old_value :: pyval
  new_value :: pyval
  units :: pyval



definition make_ParameterChange :: "raw \<Rightarrow> exn + ParameterChange" where
  "make_ParameterChange r =
     then_do (getitem r ''device_id'') (\<lambda>v1.
     then_do (getitem r ''name'') (\<lambda>v2.
     then_do (getitem r ''old_value'') (\<lambda>v3.
     then_do (getitem r ''new_value'') (\<lambda>v4.
     then_do (getitem r ''units'') (\<lambda>v5.
       Inr \<lparr>pc_device_id = v1, pc_name = v2, old_value = v3, new_value = v4, units = v5\<rparr>)))))"

text \<open>
  \<open>ps_client\<close> is \<open>client.stream_parameter_changes(device_id=..., parameter_names=...)\<close>.
\<close>

record 'w ParameterSubscription =
  ps_client :: "string option \<Rightarrow> string list option \<Rightarrow> raw aiter"
  ps_device_id :: "string option"
  ps_parameter_names :: "string list option"
  ps_on_change :: "(ParameterChange, 'w) callback option"
  ps_change_count :: int
  ps_active :: bool
  ps_iterator :: "raw aiter option"

definition ParameterSubscription_init ::
  "(string option \<Rightarrow> string list option \<Rightarrow> raw aiter) \<Rightarrow> string option \<Rightarrow>
   string list option \<Rightarrow> (ParameterChange, 'w) callback option \<Rightarrow> 'w ParameterSubscription" where
  "ParameterSubscription_init client dev names cb =
     \<lparr>ps_client = client, ps_device_id = dev, ps_parameter_names = names,
      ps_on_change = cb, ps_change_count = 0, ps_active = False, ps_iterator = None\<rparr>"

definition ParameterSubscription_aenter :: "'w ParameterSubscription \<Rightarrow> 'w ParameterSubscription" where
  "ParameterSubscription_aenter self =
     self\<lparr>ps_active := True, ps_change_count := 0,
          ps_iterator := Some (ps_client self (ps_device_id self) (ps_parameter_names self))\<rparr>"

definition ParameterSubscription_aexit :: "'w ParameterSubscription \<Rightarrow> bool \<times> 'w ParameterSubscription" where
  "ParameterSubscription_aexit self = (False, self\<lparr>ps_active := False, ps_iterator := None\<rparr>)"

definition ParameterSubscription_anext ::
  "'w ParameterSubscription \<Rightarrow> 'w \<Rightarrow> (exn + ParameterChange) \<times> 'w ParameterSubscription \<times> 'w" where
  "ParameterSubscription_anext self w =
     (if \<not> ps_active self \<or> ps_iterator self = None then (Inl StopAsyncIteration, self, w)
      else
        (case ps_iterator self of
           None \<Rightarrow> (Inl StopAsyncIteration, self, w)
         | Some it \<Rightarrow>
             (case aiter_next it of
                (Inl e, it') \<Rightarrow>
                  (if e = StopAsyncIteration
                   then (Inl e, self\<lparr>ps_iterator := Some it', ps_active := False\<rparr>, w)
                   else (Inl e, self\<lparr>ps_iterator := Some it'\<rparr>, w))
              | (Inr r, it') \<Rightarrow>
                  (case make_ParameterChange r of
                     Inl e \<Rightarrow> (Inl e, self\<lparr>ps_iterator := Some it'\<rparr>, w)
                   | Inr change \<Rightarrow>
                       (let self' = self\<lparr>ps_iterator := Some it',
                                         ps_change_count := ps_change_count self + 1\<rparr>
                        in case ps_on_change self of
                             None \<Rightarrow> (Inr change, self', w)
                           | Some cb \<Rightarrow>
                               (case cb change w of
                                  (Some e, w') \<Rightarrow> (Inl e, self', w')
                                | (None, w') \<Rightarrow> (Inr change, self', w')))))))"

section \<open>DeviceStateStream\<close>

text \<open>
  \<open>ds_client\<close> is \<open>client.stream_device_state(device_ids=..., max_rate_hz=...,
  include_snapshot=...)\<close>. An update is handed on as it comes, so its type is left open.
\<close>

record 'u DeviceStateStream =
  ds_client :: "string list option \<Rightarrow> int \<Rightarrow> bool \<Rightarrow> 'u aiter"
  ds_device_ids :: "string list option"
  ds_max_rate_hz :: int
  ds_include_snapshot :: bool
  ds_update_count :: int
  ds_active :: bool
  ds_iterator :: "'u aiter option"

definition DeviceStateStream_init ::
  "(string list option \<Rightarrow> int \<Rightarrow> bool \<Rightarrow> 'u aiter) \<Rightarrow> string list option \<Rightarrow> int \<Rightarrow> bool \<Rightarrow>
   'u DeviceStateStream" where
  "DeviceStateStream_init client devs rate snapshot =
     \<lparr>ds_client = client, ds_device_ids = devs, ds_max_rate_hz = rate,
      ds_include_snapshot = snapshot, ds_update_count = 0, ds_active = False,
      ds_iterator = None\<rparr>"

definition DeviceStateStream_aenter :: "'u DeviceStateStream \<Rightarrow> 'u DeviceStateStream" where
  "DeviceStateStream_aenter self =
     self\<lparr>ds_active := True, ds_update_count := 0,
          ds_iterator := Some (ds_client self (ds_device_ids self) (ds_max_rate_hz self)
                                 (ds_include_snapshot self))\<rparr>"

definition DeviceStateStream_aexit :: "'u DeviceStateStream \<Rightarrow> bool \<times> 'u DeviceStateStream" where
  "DeviceStateStream_aexit self = (False, self\<lparr>ds_active := False, ds_iterator := None\<rparr>)"

definition DeviceStateStream_anext :: "'u DeviceStateStream \<Rightarrow> (exn + 'u) \<times> 'u DeviceStateStream" where
  "DeviceStateStream_anext self =
     (if \<not> ds_active self \<or> ds_iterator self = None then (Inl StopAsyncIteration, self)
      else
        (case ds_iterator self of
           None \<Rightarrow> (Inl StopAsyncIteration, self)
         | Some it \<Rightarrow>
             (case aiter_next it of
                (Inl e, it') \<Rightarrow>
                  (if e = StopAsyncIteration
                   then (Inl e, self\<lparr>ds_iterator := Some it', ds_active := False\<rparr>)
                   else (Inl e, self\<lparr>ds_iterator := Some it'\<rparr>))
              | (Inr update, it') \<Rightarrow>
                  (Inr update, self\<lparr>ds_iterator := Some it',
                                    ds_update_count := ds_update_count self + 1\<rparr>))))"

text \<open>\<open>async for update in stream\<close>, keeping every update.\<close>

function DeviceStateStream_iterate ::
  "'u DeviceStateStream \<Rightarrow> 'u list \<times> exn \<times> 'u DeviceStateStream" where
  "DeviceStateStream_iterate self =
     (case DeviceStateStream_anext self of
        (Inl e, self') \<Rightarrow> ([], e, self')
      | (Inr update, self') \<Rightarrow>
          (case DeviceStateStream_iterate self' of
             (updates, e, self'') \<Rightarrow> (update # updates, e, self'')))"
  by pat_completeness auto
termination
proof (relation "measure (\<lambda>self. remaining (ds_iterator self))")
  show "wf (measure (\<lambda>self :: 'u DeviceStateStream. remaining (ds_iterator self)))"
    by simp
next
  fix self :: "'u DeviceStateStream" and x self' update
  assume "(x, self') = DeviceStateStream_anext self" "x = Inr update"
  then have a: "DeviceStateStream_anext self = (Inr update, self')"
    by simp
  obtain it where it: "ds_iterator self = Some it"
    using a by (cases "ds_iterator self") (auto simp: DeviceStateStream_anext_def)
  obtain r rest where r: "it = Item r # rest"
    using a it by (cases it rule: aiter_next.cases)
      (auto simp: DeviceStateStream_anext_def split: if_splits)
  have "ds_iterator self' = Some rest"
    using a it r by (auto simp: DeviceStateStream_anext_def split: if_splits)
  then show "(self', self) \<in> measure (\<lambda>self. remaining (ds_iterator self))"
    using it r by (simp add: remaining_def)
qed

section \<open>DaqClient\<close>

text \<open>
  The generated gRPC messages (\<open>daq_pb2\<close>) and the stub are not part of the sources. A
  message is a record of the fields the client reads. A unary call of the stub acts on
  the channel and the daemon behind it (\<open>'st\<close>) and either returns a response or raises
  \<open>grpc.RpcError\<close>, of which the client reads \<open>details()\<close>.
\<close>

record UploadRequest =
  req_script_content :: string
  req_name :: string

record UploadResponse =
  success :: bool
  script_id :: string
  error_message :: string

type_synonym ('req, 'resp, 'st) unary = "'req \<Rightarrow> 'st \<Rightarrow> (string + 'resp) \<times> 'st"

definition upload_script ::
  "(UploadRequest, UploadResponse, 'st) unary \<Rightarrow> string \<Rightarrow> string \<Rightarrow> 'st \<Rightarrow> (exn + string) \<times> 'st" where
  "upload_script stub_UploadScript script_content name st =
     (let request = \<lparr>req_script_content = script_content, req_name = name\<rparr> in
      case stub_UploadScript request st of
        (Inl details, st') \<Rightarrow> (Inl (RuntimeError (''gRPC error during upload: '' @ details)), st')
      | (Inr response, st') \<Rightarrow>
          if \<not> success response
          then (Inl (RuntimeError (''Upload failed: '' @ error_message response)), st')
          else (Inr (script_id response), st'))"

text \<open>
  A server-streaming call gives an iterator of messages, which may raise while it is
  read. A generator of the client is described by what a caller that reads it to the end
  gets: the values yielded, how the generator ended, and the lines it printed.
\<close>

datatype gen_end = Returned | Raised exn

record SystemStatus =
  current_state :: string
  current_memory_usage_mb :: float64
  live_values :: "string \<rightharpoonup> float64"
  status_timestamp_ns :: int

record status_dict =
  sd_state :: string
  sd_memory_mb :: float64
  sd_live_values :: "string \<rightharpoonup> float64"
  sd_timestamp :: int

fun stream_status_loop :: "SystemStatus aiter \<Rightarrow> status_dict list \<times> gen_end \<times> string list" where
  "stream_status_loop [] = ([], Returned, [])"
| "stream_status_loop (Item status # rest) =
     (case stream_status_loop rest of
        (ys, e, out) \<Rightarrow>
          (\<lparr>sd_state = current_state status,
            sd_memory_mb = current_memory_usage_mb status,
            sd_live_values = live_values status,
            sd_timestamp = status_timestamp_ns status\<rparr> # ys, e, out))"
| "stream_status_loop (Raise (RpcError details) # rest) =
     ([], Returned, [''Stream error: '' @ details])"
| "stream_status_loop (Raise ex # rest) = ([], Raised ex, [])"

definition stream_status :: "(unit \<Rightarrow> SystemStatus aiter) \<Rightarrow> status_dict list \<times> gen_end \<times> string list" where
  "stream_status stub_StreamStatus = stream_status_loop (stub_StreamStatus ())"

text \<open>
  A data point: \<open>HasField('scalar')\<close> and \<open>HasField('image')\<close> are whether the field is
  set. Nothing here relies on the two being exclusive.
\<close>

record DataPoint =
  dp_instrument :: string
  dp_timestamp_ns :: int
  dp_scalar :: "float64 option"
  dp_image :: "byte list option"

record measurement_dict =
  md_instrument :: string
  md_timestamp :: int
  md_value :: "float64 option"
  md_image :: "byte list option"

definition measurement_of :: "DataPoint \<Rightarrow> measurement_dict" where
  "measurement_of data_point =
     (case dp_scalar data_point of
        Some x \<Rightarrow>
          \<lparr>md_instrument = dp_instrument data_point, md_timestamp = dp_timestamp_ns data_point,
           md_value = Some x, md_image = None\<rparr>
      | None \<Rightarrow>
          (case dp_image data_point of
             Some img \<Rightarrow>
               \<lparr>md_instrument = dp_instrument data_point, md_timestamp = dp_timestamp_ns data_point,
                md_value = None, md_image = Some img\<rparr>
           | None \<Rightarrow>
               \<lparr>md_instrument = dp_instrument data_point, md_timestamp = dp_timestamp_ns data_point,
                md_value = None, md_image = None\<rparr>))"

fun stream_measurements_loop :: "DataPoint aiter \<Rightarrow> measurement_dict list \<times> gen_end \<times> string list" where
  "stream_measurements_loop [] = ([], Returned, [])"
| "stream_measurements_loop (Item data_point # rest) =
     (case stream_measurements_loop rest of
        (ys, e, out) \<Rightarrow> (measurement_of data_point # ys, e, out))"
| "stream_measurements_loop (Raise (RpcError details) # rest) =
     ([], Returned, [''Measurement stream error: '' @ details])"
| "stream_measurements_loop (Raise ex # rest) = ([], Raised ex, [])"

definition stream_measurements ::
  "(string \<Rightarrow> DataPoint aiter) \<Rightarrow> string \<Rightarrow> measurement_dict list \<times> gen_end \<times> string list" where
  "stream_measurements stub_StreamMeasurements instrument =
     stream_measurements_loop (stub_StreamMeasurements instrument)"

section \<open>Properties of the stream classes and the client\<close>

declare FrameStream_iterate.simps [simp del] DeviceStateStream_iterate.simps [simp del]

subsection \<open>One call of \<open>__anext__\<close>, one round of \<open>async for\<close>\<close>

lemma FrameStream_anext_closed:
  "\<not> fs_active s \<or> fs_iterator s = None \<Longrightarrow> FrameStream_anext s w = (Inl StopAsyncIteration, s, w)"
  by (simp add: FrameStream_anext_def)

lemma ParameterSubscription_anext_closed:
  "\<not> ps_active s \<or> ps_iterator s = None \<Longrightarrow> ParameterSubscription_anext s w = (Inl StopAsyncIteration, s, w)"
  by (simp add: ParameterSubscription_anext_def)

lemma DeviceStateStream_anext_closed:
  "\<not> ds_active s \<or> ds_iterator s = None \<Longrightarrow> DeviceStateStream_anext s = (Inl StopAsyncIteration, s)"
  by (simp add: DeviceStateStream_anext_def)

lemma FrameStream_anext_item:
  assumes "fs_active s" "fs_iterator s = Some (Item r # rest)" "\<not> cap_reached s"
    "make_Frame r = Inr frame"
  shows "FrameStream_anext s w =
     (case fs_on_frame s of
        None \<Rightarrow> (Inr frame, s\<lparr>fs_iterator := Some rest, fs_frame_count := fs_frame_count s + 1\<rparr>, w)
      | Some cb \<Rightarrow>
          (case fst (cb frame w) of None \<Rightarrow> Inr frame | Some e \<Rightarrow> Inl e,
           s\<lparr>fs_iterator := Some rest, fs_frame_count := fs_frame_count s + 1\<rparr>,
           snd (cb frame w)))"
  using assms
  by (simp add: FrameStream_anext_def Let_def case_prod_beta split: option.splits)

lemma FrameStream_anext_end:
  "fs_active s \<Longrightarrow> fs_iterator s = Some [] \<Longrightarrow> \<not> cap_reached s \<Longrightarrow>
   FrameStream_anext s w = (Inl StopAsyncIteration, s\<lparr>fs_iterator := Some [], fs_active := False\<rparr>, w)"
  by (simp add: FrameStream_anext_def)

lemma FrameStream_anext_cap:
  "fs_active s \<Longrightarrow> fs_iterator s = Some it \<Longrightarrow> cap_reached s \<Longrightarrow>
   FrameStream_anext s w = (Inl StopAsyncIteration, s, w)"
  by (simp add: FrameStream_anext_def)


lemma DeviceStateStream_anext_item:
  "ds_active s \<Longrightarrow> ds_iterator s = Some (Item u # rest) \<Longrightarrow>
   DeviceStateStream_anext s =
     (Inr u, s\<lparr>ds_iterator := Some rest, ds_update_count := ds_update_count s + 1\<rparr>)"
  by (simp add: DeviceStateStream_anext_def)

lemma DeviceStateStream_anext_end:
  "ds_active s \<Longrightarrow> ds_iterator s = Some [] \<Longrightarrow>
   DeviceStateStream_anext s = (Inl StopAsyncIteration, s\<lparr>ds_iterator := Some [], ds_active := False\<rparr>)"
  by (simp add: DeviceStateStream_anext_def)

lemma DeviceStateStream_anext_raise:
  "ds_active s \<Longrightarrow> ds_iterator s = Some (Raise e # rest) \<Longrightarrow>
   fst (DeviceStateStream_anext s) = Inl e"
  by (simp add: DeviceStateStream_anext_def)

lemma FrameStream_iterate_stop:
  "FrameStream_anext s w = (Inl e, s', w') \<Longrightarrow> FrameStream_iterate s w = ([], e, s', w')"
  by (subst FrameStream_iterate.simps) simp

lemma FrameStream_iterate_step:
  "FrameStream_anext s w = (Inr f, s', w') \<Longrightarrow>
   FrameStream_iterate s w =
     (f # fst (FrameStream_iterate s' w'), snd (FrameStream_iterate s' w'))"
  by (subst FrameStream_iterate.simps) (simp add: case_prod_beta)

lemma DeviceStateStream_iterate_stop:
  "DeviceStateStream_anext s = (Inl e, s') \<Longrightarrow> DeviceStateStream_iterate s = ([], e, s')"
  by (subst DeviceStateStream_iterate.simps) simp

lemma DeviceStateStream_iterate_step:
  "DeviceStateStream_anext s = (Inr u, s') \<Longrightarrow>
   DeviceStateStream_iterate s =
     (u # fst (DeviceStateStream_iterate s'), fst (snd (DeviceStateStream_iterate s')),
      snd (snd (DeviceStateStream_iterate s')))"
  by (subst DeviceStateStream_iterate.simps) (simp add: case_prod_beta)

subsection \<open>Iterating a frame stream with and without a cap\<close>

lemma cap_reached_zero: "fs_max_frames s = Some 0 \<Longrightarrow> \<not> cap_reached s"
  by (simp add: cap_reached_def)

lemma cap_reached_none: "fs_max_frames s = None \<Longrightarrow> \<not> cap_reached s"
  by (simp add: cap_reached_def)

lemma FrameStream_iterate_uncapped:
  assumes "fs_active s" "fs_iterator s = Some (map Item rs)" "map make_Frame rs = map Inr frames"
    "fs_on_frame s = None" "fs_max_frames s = None \<or> fs_max_frames s = Some 0"
  shows "fst (FrameStream_iterate s w) = frames
       \<and> fst (snd (FrameStream_iterate s w)) = StopAsyncIteration"
  using assms
proof (induction rs arbitrary: s frames)
  case Nil
  then have "\<not> cap_reached s"
    by (auto simp: cap_reached_def)
  with Nil show ?case
    by (simp add: FrameStream_iterate_stop [OF FrameStream_anext_end])
next
  case (Cons r rs)
  from Cons.prems(3) obtain f fs where fr: "frames = f # fs" "make_Frame r = Inr f"
      "map make_Frame rs = map Inr fs"
    by (cases frames) auto
  have nc: "\<not> cap_reached s"
    using Cons.prems(5) by (auto simp: cap_reached_def)
  let ?s = "s\<lparr>fs_iterator := Some (map Item rs), fs_frame_count := fs_frame_count s + 1\<rparr>"
  have step: "FrameStream_anext s w = (Inr f, ?s, w)"
    using FrameStream_anext_item [of s r "map Item rs" f w] Cons.prems fr nc by simp
  have "fst (FrameStream_iterate ?s w) = fs
       \<and> fst (snd (FrameStream_iterate ?s w)) = StopAsyncIteration"
    using Cons.prems fr by (intro Cons.IH) simp_all
  then show ?case
    by (simp add: FrameStream_iterate_step [OF step] fr)
qed

lemma FrameStream_iterate_capped:
  assumes "fs_active s" "fs_iterator s = Some (map Item rs @ rest)"
    "map make_Frame rs = map Inr frames" "fs_on_frame s = None"
    "fs_max_frames s = Some m" "m \<noteq> 0" "fs_frame_count s + int (length rs) = m"
  shows "fst (FrameStream_iterate s w) = frames
       \<and> fst (snd (FrameStream_iterate s w)) = StopAsyncIteration
       \<and> fs_iterator (fst (snd (snd (FrameStream_iterate s w)))) = Some rest"
  using assms
proof (induction rs arbitrary: s frames)
  case Nil
  then have "cap_reached s"
    by (simp add: cap_reached_def)
  with Nil show ?case
    by (simp add: FrameStream_iterate_stop [OF FrameStream_anext_cap])
next
  case (Cons r rs)
  from Cons.prems(3) obtain f fs where fr: "frames = f # fs" "make_Frame r = Inr f"
      "map make_Frame rs = map Inr fs"
    by (cases frames) auto
  have nc: "\<not> cap_reached s"
    using Cons.prems by (simp add: cap_reached_def)
  let ?s = "s\<lparr>fs_iterator := Some (map Item rs @ rest), fs_frame_count := fs_frame_count s + 1\<rparr>"
  have step: "FrameStream_anext s w = (Inr f, ?s, w)"
    using FrameStream_anext_item [of s r "map Item rs @ rest" f w] Cons.prems fr nc by simp
  have "fst (FrameStream_iterate ?s w) = fs
       \<and> fst (snd (FrameStream_iterate ?s w)) = StopAsyncIteration
       \<and> fs_iterator (fst (snd (snd (FrameStream_iterate ?s w)))) = Some rest"
    using Cons.prems fr by (intro Cons.IH) simp_all
  then show ?case
    by (simp add: FrameStream_iterate_step [OF step] fr)
qed

text \<open>
  Claim C1: a FrameStream opened with \<open>max_frames = N\<close> on an upstream iterator that
  produces at least \<open>N\<close> frames yields exactly \<open>N\<close> frames and none after the \<open>N\<close>th.
  What \<open>__anext__\<close> does: with \<open>n \<noteq> 0\<close> the iteration hands over the first \<open>n\<close> frames
  and stops (none at all when \<open>n\<close> is negative); with \<open>n = 0\<close> the test
  \<open>self._max_frames and ...\<close> is false and every frame of the upstream iterator is handed
  over.
\<close>

theorem frame_cap_behaviour:
  "client dev include_px = map Item rs \<and> map make_Frame rs = map Inr frames
     \<and> n \<le> int (length rs) \<longrightarrow>
   fst (FrameStream_run client dev include_px (Some n) None w)
     = (if n = 0 then frames else take (nat n) frames)"
proof (intro impI, elim conjE)
  assume h: "client dev include_px = map Item rs" "map make_Frame rs = map Inr frames"
    "n \<le> int (length rs)"
  let ?s0 = "FrameStream_aenter (FrameStream_init client dev include_px (Some n) None)
               :: 'a FrameStream"
  have s0: "fs_active ?s0" "fs_iterator ?s0 = Some (map Item rs)" "fs_on_frame ?s0 = None"
    "fs_max_frames ?s0 = Some n" "fs_frame_count ?s0 = 0"
    using h by (simp_all add: FrameStream_aenter_def FrameStream_init_def)
  have len: "length frames = length rs"
    using h(2) by (metis length_map)
  have "fst (FrameStream_iterate ?s0 w) = (if n = 0 then frames else take (nat n) frames)"
  proof (cases "n = 0")
    case True
    then show ?thesis
      using FrameStream_iterate_uncapped [of ?s0 rs frames w] s0 h by simp
  next
    case False
    have "map Item rs = map Item (take (nat n) rs) @ map Item (drop (nat n) rs)"
      by (metis append_take_drop_id map_append)
    moreover have "map make_Frame (take (nat n) rs) = map Inr (take (nat n) frames)"
      using h(2) by (metis take_map)
    moreover have "fs_frame_count ?s0 + int (length (take (nat n) rs)) = n \<or> n < 0"
      using h(3) s0(5) by auto
    ultimately show ?thesis
    proof (cases "n < 0")
      case True
      then have "cap_reached ?s0"
        using s0 by (simp add: cap_reached_def)
      then show ?thesis
        using True s0 by (simp add: FrameStream_iterate_stop [OF FrameStream_anext_cap])
    next
      case nn: False
      have "fs_frame_count ?s0 + int (length (take (nat n) rs)) = n"
        using h(3) s0(5) nn by auto
      then show ?thesis
        using FrameStream_iterate_capped [of ?s0 "take (nat n) rs" "map Item (drop (nat n) rs)"
            "take (nat n) frames" n w] s0 False
          \<open>map make_Frame (take (nat n) rs) = map Inr (take (nat n) frames)\<close>
        by (simp flip: map_append)
    qed
  qed
  then show "fst (FrameStream_run client dev include_px (Some n) None w)
     = (if n = 0 then frames else take (nat n) frames)"
    by (simp add: FrameStream_run_def case_prod_beta)
qed

text \<open>
  The same at \<open>max_frames = 0\<close> and an upstream iterator of two frames: both frames are
  handed over, where the docstring (\<open>Stop after this many frames\<close>) announces none.
\<close>

theorem frame_cap_zero_witness:
  "fst (FrameStream_run
         (\<lambda>dev include_px.
            [Item [''device_id'' \<mapsto> PStr dev, ''frame_number'' \<mapsto> PInt 1, ''width'' \<mapsto> PInt 2,
                   ''height'' \<mapsto> PInt 1, ''timestamp_ns'' \<mapsto> PInt 1000,
                   ''pixel_data'' \<mapsto> PBytes [7, 9], ''pixel_format'' \<mapsto> PStr ''u8''],
             Item [''device_id'' \<mapsto> PStr dev, ''frame_number'' \<mapsto> PInt 2, ''width'' \<mapsto> PInt 2,
                   ''height'' \<mapsto> PInt 1, ''timestamp_ns'' \<mapsto> PInt 2000,
                   ''pixel_data'' \<mapsto> PBytes [8, 6], ''pixel_format'' \<mapsto> PStr ''u8'']])
         ''camera_0'' True (Some 0) None ())
     = [\<lparr>device_id = PStr ''camera_0'', frame_number = PInt 1, width = PInt 2, height = PInt 1,
         timestamp_ns = PInt 1000, pixel_data = PBytes [7, 9], pixel_format = PStr ''u8''\<rparr>,
        \<lparr>device_id = PStr ''camera_0'', frame_number = PInt 2, width = PInt 2, height = PInt 1,
         timestamp_ns = PInt 2000, pixel_data = PBytes [8, 6], pixel_format = PStr ''u8''\<rparr>]"
  using frame_cap_behaviour [of
      "\<lambda>dev include_px.
            [Item [''device_id'' \<mapsto> PStr dev, ''frame_number'' \<mapsto> PInt 1, ''width'' \<mapsto> PInt 2,
                   ''height'' \<mapsto> PInt 1, ''timestamp_ns'' \<mapsto> PInt 1000,
                   ''pixel_data'' \<mapsto> PBytes [7, 9], ''pixel_format'' \<mapsto> PStr ''u8''],
             Item [''device_id'' \<mapsto> PStr dev, ''frame_number'' \<mapsto> PInt 2, ''width'' \<mapsto> PInt 2,
                   ''height'' \<mapsto> PInt 1, ''timestamp_ns'' \<mapsto> PInt 2000,
                   ''pixel_data'' \<mapsto> PBytes [8, 6], ''pixel_format'' \<mapsto> PStr ''u8'']]"
      "''camera_0''" True
      "[[''device_id'' \<mapsto> PStr ''camera_0'', ''frame_number'' \<mapsto> PInt 1, ''width'' \<mapsto> PInt 2,
                   ''height'' \<mapsto> PInt 1, ''timestamp_ns'' \<mapsto> PInt 1000,
                   ''pixel_data'' \<mapsto> PBytes [7, 9], ''pixel_format'' \<mapsto> PStr ''u8''],
        [''device_id'' \<mapsto> PStr ''camera_0'', ''frame_number'' \<mapsto> PInt 2, ''width'' \<mapsto> PInt 2,
                   ''height'' \<mapsto> PInt 1, ''timestamp_ns'' \<mapsto> PInt 2000,
                   ''pixel_data'' \<mapsto> PBytes [8, 6], ''pixel_format'' \<mapsto> PStr ''u8'']]"
      "[\<lparr>device_id = PStr ''camera_0'', frame_number = PInt 1, width = PInt 2, height = PInt 1,
         timestamp_ns = PInt 1000, pixel_data = PBytes [7, 9], pixel_format = PStr ''u8''\<rparr>,
        \<lparr>device_id = PStr ''camera_0'', frame_number = PInt 2, width = PInt 2, height = PInt 1,
         timestamp_ns = PInt 2000, pixel_data = PBytes [8, 6], pixel_format = PStr ''u8''\<rparr>]"
      0 "()"]
  by (simp add: make_Frame_def then_do_def getitem_def)

subsection \<open>Closing\<close>

text \<open>
  Claim C2: once a FrameStream, a ParameterSubscription or a DeviceStateStream has been
  closed by \<open>__aexit__\<close>, every later \<open>__anext__\<close> raises \<open>StopAsyncIteration\<close> and hands over
  no event (the first call after closing and any number \<open>n\<close> of calls after it, the object
  staying as \<open>__aexit__\<close> left it); closing again changes nothing and returns \<open>False\<close>
  without raising.
\<close>

theorem closed_streams_stay_closed:
  fixes fs :: "'w FrameStream" and ps :: "'v ParameterSubscription" and ds :: "'u DeviceStateStream"
  defines "fs' \<equiv> snd (FrameStream_aexit fs)"
      and "ps' \<equiv> snd (ParameterSubscription_aexit ps)"
      and "ds' \<equiv> snd (DeviceStateStream_aexit ds)"
  shows
  "((\<lambda>(r :: exn + Frame, s, w). FrameStream_anext s w) ^^ n) (FrameStream_anext fs' w)
     = (Inl StopAsyncIteration, fs', w)
   \<and> FrameStream_aexit fs' = (False, fs')
   \<and> ((\<lambda>(r :: exn + ParameterChange, s, w). ParameterSubscription_anext s w) ^^ n)
        (ParameterSubscription_anext ps' v)
     = (Inl StopAsyncIteration, ps', v)
   \<and> ParameterSubscription_aexit ps' = (False, ps')
   \<and> ((\<lambda>(r :: exn + 'u, s). DeviceStateStream_anext s) ^^ n) (DeviceStateStream_anext ds')
     = (Inl StopAsyncIteration, ds')
   \<and> DeviceStateStream_aexit ds' = (False, ds')"
proof -
  have f: "FrameStream_anext fs' w = (Inl StopAsyncIteration, fs', w)"
    by (rule FrameStream_anext_closed) (simp add: fs'_def FrameStream_aexit_def)
  have p: "ParameterSubscription_anext ps' v = (Inl StopAsyncIteration, ps', v)"
    by (rule ParameterSubscription_anext_closed) (simp add: ps'_def ParameterSubscription_aexit_def)
  have d: "DeviceStateStream_anext ds' = (Inl StopAsyncIteration, ds')"
    by (rule DeviceStateStream_anext_closed) (simp add: ds'_def DeviceStateStream_aexit_def)
  have "((\<lambda>(r :: exn + Frame, s, w). FrameStream_anext s w) ^^ n) (Inl StopAsyncIteration, fs', w)
          = (Inl StopAsyncIteration, fs', w)"
    using f by (induction n) (simp_all add: funpow_swap1)
  moreover have "((\<lambda>(r :: exn + ParameterChange, s, w). ParameterSubscription_anext s w) ^^ n)
          (Inl StopAsyncIteration, ps', v) = (Inl StopAsyncIteration, ps', v)"
    using p by (induction n) (simp_all add: funpow_swap1)
  moreover have "((\<lambda>(r :: exn + 'u, s). DeviceStateStream_anext s) ^^ n) (Inl StopAsyncIteration, ds')
          = (Inl StopAsyncIteration, ds')"
    using d by (induction n) (simp_all add: funpow_swap1)
  ultimately show ?thesis
    by (simp add: f p d)
      (simp add: fs'_def ps'_def ds'_def FrameStream_aexit_def ParameterSubscription_aexit_def
        DeviceStateStream_aexit_def)
qed

text \<open>
  Three streams that are open with an event pending, closed, and then asked three times
  for the next event.
\<close>

theorem closed_streams_stay_closed_witness:
  "((\<lambda>(r :: exn + Frame, s, w). FrameStream_anext s w) ^^ 2)
      (FrameStream_anext
         (snd (FrameStream_aexit
            (FrameStream_aenter (FrameStream_init (\<lambda>dev include_px. [Item Map.empty])
               ''camera_0'' True None None)))) ())
     = (Inl StopAsyncIteration,
        \<lparr>fs_client = \<lambda>dev include_px. [Item Map.empty], fs_device_id = ''camera_0'',
         fs_include_pixel_data = True, fs_max_frames = None, fs_on_frame = None,
         fs_frame_count = 0, fs_active = False, fs_iterator = None\<rparr>, ())
   \<and> ((\<lambda>(r :: exn + ParameterChange, s, w). ParameterSubscription_anext s w) ^^ 2)
      (ParameterSubscription_anext
         (snd (ParameterSubscription_aexit
            (ParameterSubscription_aenter (ParameterSubscription_init (\<lambda>dev names. [Item Map.empty])
               (Some ''laser'') None None)))) ())
     = (Inl StopAsyncIteration,
        \<lparr>ps_client = \<lambda>dev names. [Item Map.empty], ps_device_id = Some ''laser'',
         ps_parameter_names = None, ps_on_change = None, ps_change_count = 0,
         ps_active = False, ps_iterator = None\<rparr>, ())
   \<and> ((\<lambda>(r :: exn + nat, s). DeviceStateStream_anext s) ^^ 2)
      (DeviceStateStream_anext
         (snd (DeviceStateStream_aexit
            (DeviceStateStream_aenter (DeviceStateStream_init (\<lambda>devs rate snapshot. [Item 5])
               None 10 True)))))
     = (Inl StopAsyncIteration,
        \<lparr>ds_client = \<lambda>devs rate snapshot. [Item 5], ds_device_ids = None, ds_max_rate_hz = 10,
         ds_include_snapshot = True, ds_update_count = 0, ds_active = False,
         ds_iterator = None\<rparr>)"
  using closed_streams_stay_closed [where n = 2 and w = "()" and v = "()"
      and fs = "FrameStream_aenter (FrameStream_init (\<lambda>dev include_px. [Item Map.empty])
               ''camera_0'' True None None)"
      and ps = "ParameterSubscription_aenter (ParameterSubscription_init (\<lambda>dev names. [Item Map.empty])
               (Some ''laser'') None None)"
      and ds = "DeviceStateStream_aenter (DeviceStateStream_init (\<lambda>devs rate snapshot. [Item (5 :: nat)])
               None 10 True)"]
  by (simp add: FrameStream_aexit_def FrameStream_aenter_def FrameStream_init_def
      ParameterSubscription_aexit_def ParameterSubscription_aenter_def ParameterSubscription_init_def
      DeviceStateStream_aexit_def DeviceStateStream_aenter_def DeviceStateStream_init_def)

subsection \<open>A stream that fails while it is read\<close>

lemma stream_status_loop_items:
  "stream_status_loop (map Item xs) =
     (map (\<lambda>status. \<lparr>sd_state = current_state status,
            sd_memory_mb = current_memory_usage_mb status,
            sd_live_values = live_values status,
            sd_timestamp = status_timestamp_ns status\<rparr>) xs, Returned, [])"
  by (induction xs) simp_all

lemma stream_status_loop_rpc:
  "stream_status_loop (map Item xs @ Raise (RpcError d) # rest) =
     (fst (stream_status_loop (map Item xs)), Returned, [''Stream error: '' @ d])"
  by (induction xs) (simp_all split: prod.splits)

lemma stream_measurements_loop_items:
  "stream_measurements_loop (map Item xs) = (map measurement_of xs, Returned, [])"
  by (induction xs) simp_all

lemma stream_measurements_loop_rpc:
  "stream_measurements_loop (map Item xs @ Raise (RpcError d) # rest) =
     (fst (stream_measurements_loop (map Item xs)), Returned, [''Measurement stream error: '' @ d])"
  by (induction xs) (simp_all split: prod.splits)

text \<open>
  Claim C3, as the client has it: when the RPC layer raises \<open>grpc.RpcError\<close> while
  \<open>stream_status\<close> or \<open>stream_measurements\<close> is read, the generator yields what it had
  yielded up to there and returns, exactly as it does when the server ends the stream at
  that point; messages after the failure are not read. The failure shows only as one line
  printed to standard output (\<open>Stream error: ...\<close>, \<open>Measurement stream error: ...\<close>).
\<close>

theorem rpc_failure_ends_stream_like_normal_end:
  "fst (stream_status (\<lambda>_. map Item xs @ Raise (RpcError d) # rest)) = fst (stream_status (\<lambda>_. map Item xs))
   \<and> fst (snd (stream_status (\<lambda>_. map Item xs @ Raise (RpcError d) # rest))) = Returned
   \<and> fst (snd (stream_status (\<lambda>_. map Item xs))) = Returned
   \<and> snd (snd (stream_status (\<lambda>_. map Item xs @ Raise (RpcError d) # rest))) = [''Stream error: '' @ d]
   \<and> snd (snd (stream_status (\<lambda>_. map Item xs))) = []
   \<and> fst (stream_measurements (\<lambda>_. map Item ys @ Raise (RpcError d) # rest') i)
       = fst (stream_measurements (\<lambda>_. map Item ys) i)
   \<and> fst (snd (stream_measurements (\<lambda>_. map Item ys @ Raise (RpcError d) # rest') i)) = Returned
   \<and> fst (snd (stream_measurements (\<lambda>_. map Item ys) i)) = Returned
   \<and> snd (snd (stream_measurements (\<lambda>_. map Item ys @ Raise (RpcError d) # rest') i))
       = [''Measurement stream error: '' @ d]
   \<and> snd (snd (stream_measurements (\<lambda>_. map Item ys) i)) = []"
  by (simp add: stream_status_def stream_measurements_def stream_status_loop_rpc
      stream_status_loop_items stream_measurements_loop_rpc stream_measurements_loop_items)

text \<open>
  A status stream and a measurement stream that break after one message.
\<close>

theorem rpc_failure_witness:
  "stream_status
     (\<lambda>_. [Item \<lparr>current_state = ''RUNNING'', current_memory_usage_mb = 0,
                  live_values = Map.empty, status_timestamp_ns = 1\<rparr>,
           Raise (RpcError ''Socket closed''),
           Item \<lparr>current_state = ''IDLE'', current_memory_usage_mb = 0,
                  live_values = Map.empty, status_timestamp_ns = 2\<rparr>])
     = ([\<lparr>sd_state = ''RUNNING'', sd_memory_mb = 0, sd_live_values = Map.empty, sd_timestamp = 1\<rparr>],
        Returned, [''Stream error: Socket closed''])
   \<and> stream_measurements
     (\<lambda>_. [Item \<lparr>dp_instrument = ''stage'', dp_timestamp_ns = 1, dp_scalar = Some 7, dp_image = None\<rparr>,
           Raise (RpcError ''Socket closed'')]) ''stage''
     = ([\<lparr>md_instrument = ''stage'', md_timestamp = 1, md_value = Some 7, md_image = None\<rparr>],
        Returned, [''Measurement stream error: Socket closed''])"
  using rpc_failure_ends_stream_like_normal_end [of
      "[\<lparr>current_state = ''RUNNING'', current_memory_usage_mb = 0,
                  live_values = Map.empty, status_timestamp_ns = 1\<rparr>]"
      "''Socket closed''"
      "[Item \<lparr>current_state = ''IDLE'', current_memory_usage_mb = 0,
                  live_values = Map.empty, status_timestamp_ns = 2\<rparr>]"
      "[\<lparr>dp_instrument = ''stage'', dp_timestamp_ns = 1, dp_scalar = Some 7, dp_image = None\<rparr>]"
      "[]" "''stage''"]
  by (simp add: stream_status_def stream_measurements_def measurement_of_def)

text \<open>
  Claim C3 as stated (the caller can tell a failure from the normal end of the stream)
  does not hold: a stream that breaks after its first message and one that ends after it
  give the caller the same values and end the same way.
\<close>

theorem rpc_failure_indistinguishable_counterexample:
  "fst (stream_status (\<lambda>_. [Item \<lparr>current_state = ''RUNNING'', current_memory_usage_mb = 0,
          live_values = Map.empty, status_timestamp_ns = 1\<rparr>, Raise (RpcError ''Socket closed'')]))
     = fst (stream_status (\<lambda>_. [Item \<lparr>current_state = ''RUNNING'', current_memory_usage_mb = 0,
          live_values = Map.empty, status_timestamp_ns = 1\<rparr>]))
   \<and> fst (snd (stream_status (\<lambda>_. [Item \<lparr>current_state = ''RUNNING'', current_memory_usage_mb = 0,
          live_values = Map.empty, status_timestamp_ns = 1\<rparr>, Raise (RpcError ''Socket closed'')])))
     = fst (snd (stream_status (\<lambda>_. [Item \<lparr>current_state = ''RUNNING'', current_memory_usage_mb = 0,
          live_values = Map.empty, status_timestamp_ns = 1\<rparr>])))
   \<and> fst (stream_measurements
          (\<lambda>_. [Item \<lparr>dp_instrument = ''stage'', dp_timestamp_ns = 1, dp_scalar = Some 7, dp_image = None\<rparr>,
                Raise (RpcError ''Socket closed'')]) ''stage'')
     = fst (stream_measurements
          (\<lambda>_. [Item \<lparr>dp_instrument = ''stage'', dp_timestamp_ns = 1, dp_scalar = Some 7, dp_image = None\<rparr>])
          ''stage'')
   \<and> fst (snd (stream_measurements
          (\<lambda>_. [Item \<lparr>dp_instrument = ''stage'', dp_timestamp_ns = 1, dp_scalar = Some 7, dp_image = None\<rparr>,
                Raise (RpcError ''Socket closed'')]) ''stage''))
     = fst (snd (stream_measurements
          (\<lambda>_. [Item \<lparr>dp_instrument = ''stage'', dp_timestamp_ns = 1, dp_scalar = Some 7, dp_image = None\<rparr>])
          ''stage''))"
  by (simp add: stream_status_def stream_measurements_def)

subsection \<open>Decoding pixels\<close>











subsection \<open>The payload of a measurement\<close>

lemma measurement_of_exclusive: "md_value (measurement_of dp) = None \<or> md_image (measurement_of dp) = None"
  by (simp add: measurement_of_def split: option.splits)

lemma stream_measurements_loop_set:
  "set (fst (stream_measurements_loop xs)) \<subseteq> range measurement_of"
  by (induction xs rule: stream_measurements_loop.induct) (auto split: prod.splits)

text \<open>
  Claim C5: every dictionary yielded by \<open>stream_measurements\<close> has at most one of
  \<open>value\<close> and \<open>image\<close> set. With the scalar field present \<open>value\<close> is the scalar and
  \<open>image\<close> is \<open>None\<close>; with only the image field present \<open>image\<close> is the image and \<open>value\<close>
  is \<open>None\<close>; with neither both are \<open>None\<close>. Each message gives one dictionary, in order.
\<close>

theorem measurement_payload_exclusive:
  "(m \<in> set (fst (stream_measurements stub instrument)) \<longrightarrow> md_value m = None \<or> md_image m = None)
   \<and> (dp_scalar dp = Some x \<longrightarrow>
        md_value (measurement_of dp) = Some x \<and> md_image (measurement_of dp) = None)
   \<and> (dp_scalar dp = None \<and> dp_image dp = Some img \<longrightarrow>
        md_value (measurement_of dp) = None \<and> md_image (measurement_of dp) = Some img)
   \<and> (dp_scalar dp = None \<and> dp_image dp = None \<longrightarrow>
        md_value (measurement_of dp) = None \<and> md_image (measurement_of dp) = None)
   \<and> fst (stream_measurements_loop (map Item dps)) = map measurement_of dps"
proof -
  have "md_value m = None \<or> md_image m = None"
    if "m \<in> set (fst (stream_measurements stub instrument))"
  proof -
    from that obtain dp' where "m = measurement_of dp'"
      using stream_measurements_loop_set [of "stub instrument"]
      by (auto simp: stream_measurements_def)
    then show ?thesis
      by (simp add: measurement_of_exclusive)
  qed
  moreover have "fst (stream_measurements_loop (map Item dps)) = map measurement_of dps"
    by (induction dps) (auto split: prod.splits)
  ultimately show ?thesis
    by (simp add: measurement_of_def)
qed

text \<open>
  A data point that carries an image.
\<close>

theorem measurement_payload_exclusive_witness:
  "measurement_of \<lparr>dp_instrument = ''camera'', dp_timestamp_ns = 3, dp_scalar = None,
       dp_image = Some [1, 2, 3]\<rparr>
     = \<lparr>md_instrument = ''camera'', md_timestamp = 3, md_value = None, md_image = Some [1, 2, 3]\<rparr>
   \<and> fst (stream_measurements_loop
        [Item \<lparr>dp_instrument = ''camera'', dp_timestamp_ns = 3, dp_scalar = None,
               dp_image = Some [1, 2, 3]\<rparr>])
     = [\<lparr>md_instrument = ''camera'', md_timestamp = 3, md_value = None, md_image = Some [1, 2, 3]\<rparr>]"
  using measurement_payload_exclusive [where
      dp = "\<lparr>dp_instrument = ''camera'', dp_timestamp_ns = 3, dp_scalar = None,
       dp_image = Some [1, 2, 3]\<rparr>" and img = "[1, 2, 3]"
      and dps = "[\<lparr>dp_instrument = ''camera'', dp_timestamp_ns = 3, dp_scalar = None,
       dp_image = Some [1, 2, 3]\<rparr>]"]
  by (simp add: measurement_of_def)

subsection \<open>Callbacks\<close>



subsection \<open>Uploading a script\<close>

text \<open>
  Claim C7: when the \<open>UploadScript\<close> call returns a response, \<open>upload_script\<close> returns the
  response's \<open>script_id\<close> if and only if \<open>success\<close> is true; otherwise it raises a
  \<open>RuntimeError\<close> that carries the response's \<open>error_message\<close>. The stub is called once:
  the channel is left as that one call left it.
\<close>

theorem upload_script_result:
  assumes "stub \<lparr>req_script_content = content, req_name = name\<rparr> st = (Inr response, st')"
  shows "upload_script stub content name st =
           (if success response then Inr (script_id response)
            else Inl (RuntimeError (''Upload failed: '' @ error_message response)), st')
         \<and> (fst (upload_script stub content name st) = Inr (script_id response)) = success response"
  using assms by (simp add: upload_script_def)

text \<open>
  A stub that counts its calls, answering once with a failure and once with a script id.
\<close>

theorem upload_script_result_witness:
  "upload_script
     (\<lambda>request calls.
        (Inr \<lparr>success = False, script_id = [], error_message = ''parse error at line 3''\<rparr>,
         Suc calls))
     ''stage.move_abs(5.0'' ''experiment'' 0
   = (Inl (RuntimeError ''Upload failed: parse error at line 3''), Suc 0)
   \<and> upload_script
     (\<lambda>request calls.
        (Inr \<lparr>success = True, script_id = ''script-1'', error_message = []\<rparr>, Suc calls))
     ''print(42)'' ''experiment'' 0
   = (Inr ''script-1'', Suc 0)"
  using upload_script_result [of
      "\<lambda>request calls.
        (Inr \<lparr>success = False, script_id = [], error_message = ''parse error at line 3''\<rparr>,
         Suc calls)"
      "''stage.move_abs(5.0''" "''experiment''" 0
      "\<lparr>success = False, script_id = [], error_message = ''parse error at line 3''\<rparr>" "Suc 0"]
    upload_script_result [of
      "\<lambda>request calls.
        (Inr \<lparr>success = True, script_id = ''script-1'', error_message = []\<rparr>, Suc calls)"
      "''print(42)''" "''experiment''" 0
      "\<lparr>success = True, script_id = ''script-1'', error_message = []\<rparr>" "Suc 0"]
  by simp

subsection \<open>Device state updates\<close>

lemma DeviceStateStream_iterate_items:
  "ds_active s \<Longrightarrow> ds_iterator s = Some (map Item us) \<Longrightarrow>
   fst (DeviceStateStream_iterate s) = us \<and> fst (snd (DeviceStateStream_iterate s)) = StopAsyncIteration"
proof (induction us arbitrary: s)
  case Nil
  then show ?case
    by (simp add: DeviceStateStream_iterate_stop [OF DeviceStateStream_anext_end])
next
  case (Cons u us)
  let ?s = "s\<lparr>ds_iterator := Some (map Item us), ds_update_count := ds_update_count s + 1\<rparr>"
  have "DeviceStateStream_anext s = (Inr u, ?s)"
    using Cons.prems by (simp add: DeviceStateStream_anext_item)
  moreover have "fst (DeviceStateStream_iterate ?s) = us
       \<and> fst (snd (DeviceStateStream_iterate ?s)) = StopAsyncIteration"
    using Cons.prems by (intro Cons.IH) simp_all
  ultimately show ?case
    by (simp add: DeviceStateStream_iterate_step)
qed

lemma DeviceStateStream_iterate_raise:
  "ds_active s \<Longrightarrow> ds_iterator s = Some (map Item us @ Raise e # rest) \<Longrightarrow>
   fst (DeviceStateStream_iterate s) = us \<and> fst (snd (DeviceStateStream_iterate s)) = e"
proof (induction us arbitrary: s)
  case Nil
  then have "fst (DeviceStateStream_anext s) = Inl e"
    by (simp add: DeviceStateStream_anext_raise)
  then obtain s' where "DeviceStateStream_anext s = (Inl e, s')"
    by (cases "DeviceStateStream_anext s") simp
  then show ?case
    by (simp add: DeviceStateStream_iterate_stop)
next
  case (Cons u us)
  let ?s = "s\<lparr>ds_iterator := Some (map Item us @ Raise e # rest),
               ds_update_count := ds_update_count s + 1\<rparr>"
  have "DeviceStateStream_anext s = (Inr u, ?s)"
    using Cons.prems by (simp add: DeviceStateStream_anext_item)
  moreover have "fst (DeviceStateStream_iterate ?s) = us \<and> fst (snd (DeviceStateStream_iterate ?s)) = e"
    using Cons.prems by (intro Cons.IH) simp_all
  ultimately show ?case
    by (simp add: DeviceStateStream_iterate_step)
qed

text \<open>
  Claim C8: DeviceStateStream does not limit the rate itself. \<open>max_rate_hz\<close> is passed to
  the client's \<open>stream_device_state\<close> when the stream is entered; \<open>__anext__\<close> does the same
  whatever \<open>max_rate_hz\<close> is; and iterating yields every update of the underlying iterator,
  unchanged and in order, up to its end or its first exception. (Time is not part of the
  model; no step of \<open>__anext__\<close> waits.)
\<close>

theorem device_state_stream_no_local_rate_limit:
  fixes client :: "string list option \<Rightarrow> int \<Rightarrow> bool \<Rightarrow> 'u aiter"
  shows
  "ds_iterator (DeviceStateStream_aenter (DeviceStateStream_init client devs rate snapshot))
     = Some (client devs rate snapshot)
   \<and> DeviceStateStream_anext (s\<lparr>ds_max_rate_hz := rate'\<rparr>)
     = (case DeviceStateStream_anext s of (res, s') \<Rightarrow> (res, s'\<lparr>ds_max_rate_hz := rate'\<rparr>))
   \<and> (client devs rate snapshot = map Item us \<longrightarrow>
        fst (DeviceStateStream_iterate
               (DeviceStateStream_aenter (DeviceStateStream_init client devs rate snapshot))) = us)
   \<and> (client devs rate snapshot = map Item us @ Raise e # rest \<longrightarrow>
        fst (DeviceStateStream_iterate
               (DeviceStateStream_aenter (DeviceStateStream_init client devs rate snapshot))) = us)"
proof -
  let ?s0 = "DeviceStateStream_aenter (DeviceStateStream_init client devs rate snapshot)"
  have it: "ds_iterator ?s0 = Some (client devs rate snapshot)" and act: "ds_active ?s0"
    by (simp_all add: DeviceStateStream_aenter_def DeviceStateStream_init_def)
  have "DeviceStateStream_anext (s\<lparr>ds_max_rate_hz := rate'\<rparr>)
     = (case DeviceStateStream_anext s of (res, s') \<Rightarrow> (res, s'\<lparr>ds_max_rate_hz := rate'\<rparr>))"
    by (cases "ds_iterator s"; cases "the (ds_iterator s)" rule: aiter_next.cases)
      (auto simp: DeviceStateStream_anext_def)
  moreover have "fst (DeviceStateStream_iterate ?s0) = us" if "client devs rate snapshot = map Item us"
    using DeviceStateStream_iterate_items [OF act, of us] it that by simp
  moreover have "fst (DeviceStateStream_iterate ?s0) = us"
    if "client devs rate snapshot = map Item us @ Raise e # rest"
    using DeviceStateStream_iterate_raise [OF act, of us e rest] it that by simp
  ultimately show ?thesis
    using it by blast
qed

text \<open>
  Three updates requested at 1 Hz: all three are handed over.
\<close>

theorem device_state_stream_witness:
  "fst (DeviceStateStream_iterate
          (DeviceStateStream_aenter
             (DeviceStateStream_init (\<lambda>devs rate snapshot. map Item [10, 20, 30 :: nat])
                (Some [''motor_x'', ''motor_y'']) 1 True)))
     = [10, 20, 30]
   \<and> ds_iterator
        (DeviceStateStream_aenter
           (DeviceStateStream_init (\<lambda>devs rate snapshot. map Item [10, 20, 30 :: nat])
              (Some [''motor_x'', ''motor_y'']) 1 True))
     = Some [Item 10, Item 20, Item 30]"
  using device_state_stream_no_local_rate_limit [where
      client = "\<lambda>devs rate snapshot. map Item [10, 20, 30 :: nat]"
      and devs = "Some [''motor_x'', ''motor_y'']" and rate = 1 and snapshot = True
      and us = "[10, 20, 30]" and rate' = 50
      and s = "DeviceStateStream_init (\<lambda>devs rate snapshot. map Item [10, 20, 30 :: nat])
                 (Some [''motor_x'', ''motor_y'']) 1 True"
      and e = StopAsyncIteration and rest = "[]"]
  by simp

subsection \<open>Parameter values as numbers\<close>




subsection \<open>A cap of zero frames\<close>

text \<open>
  Claim C10: with \<open>max_frames = 0\<close> the cap is not enforced. \<open>__anext__\<close> does with
  \<open>max_frames = 0\<close> exactly what it does with \<open>max_frames = None\<close>, and an iteration hands
  over every frame of the upstream iterator, however many there are.
\<close>

theorem max_frames_zero_is_unlimited:
  "FrameStream_anext (s\<lparr>fs_max_frames := Some 0\<rparr>) w =
     (case FrameStream_anext (s\<lparr>fs_max_frames := None\<rparr>) w of
        (res, s', w') \<Rightarrow> (res, s'\<lparr>fs_max_frames := Some 0\<rparr>, w'))
   \<and> (client dev include_px = map Item rs \<and> map make_Frame rs = map Inr frames \<longrightarrow>
        fst (FrameStream_run client dev include_px (Some 0) None w) = frames
        \<and> length frames = length rs)"
proof -
  have a: "FrameStream_anext (s\<lparr>fs_max_frames := Some 0\<rparr>) w =
     (case FrameStream_anext (s\<lparr>fs_max_frames := None\<rparr>) w of
        (res, s', w') \<Rightarrow> (res, s'\<lparr>fs_max_frames := Some 0\<rparr>, w'))"
    by (simp add: FrameStream_anext_def cap_reached_def Let_def
        split: option.splits prod.splits sum.splits)
  have b: "fst (FrameStream_run client dev include_px (Some 0) None w) = frames
        \<and> length frames = length rs"
    if h: "client dev include_px = map Item rs" "map make_Frame rs = map Inr frames"
  proof -
    let ?s0 = "FrameStream_aenter (FrameStream_init client dev include_px (Some 0) None)
                 :: 'a FrameStream"
    have "fst (FrameStream_iterate ?s0 w) = frames"
      using h FrameStream_iterate_uncapped [of ?s0 rs frames w]
      by (simp add: FrameStream_aenter_def FrameStream_init_def)
    moreover have "length frames = length rs"
      using h(2) by (metis length_map)
    ultimately show ?thesis
      by (simp add: FrameStream_run_def case_prod_beta)
  qed
  from a b show ?thesis
    by blast
qed

text \<open>
  Three frames upstream and \<open>max_frames = 0\<close>: three frames are handed over.
\<close>

theorem max_frames_zero_is_unlimited_witness:
  "length (fst (FrameStream_run
         (\<lambda>dev include_px.
            map Item (replicate 3 [''device_id'' \<mapsto> PStr dev, ''frame_number'' \<mapsto> PInt 1,
                   ''width'' \<mapsto> PInt 1, ''height'' \<mapsto> PInt 1, ''timestamp_ns'' \<mapsto> PInt 1000,
                   ''pixel_data'' \<mapsto> PNone, ''pixel_format'' \<mapsto> PStr ''u8'']))
         ''camera_0'' False (Some 0) None ())) = 3"
  using max_frames_zero_is_unlimited [where
      client = "\<lambda>dev include_px.
            map Item (replicate 3 [''device_id'' \<mapsto> PStr dev, ''frame_number'' \<mapsto> PInt 1,
                   ''width'' \<mapsto> PInt 1, ''height'' \<mapsto> PInt 1, ''timestamp_ns'' \<mapsto> PInt 1000,
                   ''pixel_data'' \<mapsto> PNone, ''pixel_format'' \<mapsto> PStr ''u8''])"
      and dev = "''camera_0''" and include_px = False and w = "()"
      and rs = "replicate 3 [''device_id'' \<mapsto> PStr ''camera_0'', ''frame_number'' \<mapsto> PInt 1,
                   ''width'' \<mapsto> PInt 1, ''height'' \<mapsto> PInt 1, ''timestamp_ns'' \<mapsto> PInt 1000,
                   ''pixel_data'' \<mapsto> PNone, ''pixel_format'' \<mapsto> PStr ''u8'']"
      and frames = "replicate 3 \<lparr>device_id = PStr ''camera_0'', frame_number = PInt 1, width = PInt 1,
         height = PInt 1, timestamp_ns = PInt 1000, pixel_data = PNone, pixel_format = PStr ''u8''\<rparr>"]
  by (simp add: make_Frame_def then_do_def getitem_def)

end
